theory Spec2Isabelle
  imports Main "HOL-Library.Multiset"
begin

section \<open>JavaScript values read by the components\<close>

text \<open>
  The table components receive their rows as \<^verbatim>\<open>Record<string, any>\<close> objects. A field
  holds a JavaScript value; the components only test such a value for falsiness
  (\<^verbatim>\<open>!v\<close>), ask for its \<^verbatim>\<open>typeof\<close>, subtract two numbers and hand it to the
  ranking function. Finite numbers are modelled as integers (gil amounts, counts,
  timestamps); \<open>JNaN\<close> is the number NaN. IEEE rounding and the infinities are outside
  this model. \<open>JObj\<close> stands for any other object (truthy, \<^verbatim>\<open>typeof\<close> "object").
\<close>

datatype jsval = JUndefined | JNull | JBool bool | JNaN | JNum int | JStr string | JObj

datatype jstype = TUndefined | TObject | TBoolean | TNumber | TString

fun typeof :: "jsval \<Rightarrow> jstype" where
  "typeof JUndefined = TUndefined"
| "typeof JNull = TObject"
| "typeof (JBool b) = TBoolean"
| "typeof JNaN = TNumber"
| "typeof (JNum n) = TNumber"
| "typeof (JStr s) = TString"
| "typeof JObj = TObject"

text \<open>\<^verbatim>\<open>!v\<close>: true exactly for the falsy values undefined, null, false, NaN, 0 and "".\<close>

fun jsNot :: "jsval \<Rightarrow> bool" where
  "jsNot JUndefined = True"
| "jsNot JNull = True"
| "jsNot (JBool b) = (\<not> b)"
| "jsNot JNaN = True"
| "jsNot (JNum n) = (n = 0)"
| "jsNot (JStr s) = (s = [])"
| "jsNot JObj = False"

text \<open>
  \<^verbatim>\<open>x - y\<close> on two values of type number. The comparator below reaches the
  subtraction only behind its \<^verbatim>\<open>typeof\<close> guards, so other operands never occur.
\<close>

fun numMinus :: "jsval \<Rightarrow> jsval \<Rightarrow> jsval" where
  "numMinus (JNum x) (JNum y) = JNum (x - y)"
| "numMinus x y = JNaN"

text \<open>\<^verbatim>\<open>type Type = Record<string, any>\<close>; reading a missing key yields undefined.\<close>

type_synonym Type = "string \<rightharpoonup> jsval"

definition getProp :: "Type \<Rightarrow> string \<Rightarrow> jsval" where
  "getProp row key = (case row key of None \<Rightarrow> JUndefined | Some v \<Rightarrow> v)"

datatype js_error = TypeError

section \<open>MobileTable\<close>

subsection \<open>The sort comparator\<close>

text \<open>
  The arrow function handed to \<^verbatim>\<open>.sort\<close> in \<^verbatim>\<open>sortedData\<close>, closed over
  \<^verbatim>\<open>sortingColumn\<close> and \<^verbatim>\<open>desc\<close>:
  \<^verbatim>\<open>
  (a, b) => {
    const aValue = a[sortingColumn]
    const bValue = b[sortingColumn]
    if (!aValue || typeof aValue !== 'number') { return 0 }
    if (!bValue || typeof bValue !== 'number') { return 0 }
    return desc ? bValue - aValue : aValue - bValue
  }
  \<close>
\<close>

definition sortCompare :: "string \<Rightarrow> bool \<Rightarrow> Type \<Rightarrow> Type \<Rightarrow> jsval" where
  "sortCompare sortingColumn desc a b =
     (let aValue = getProp a sortingColumn;
          bValue = getProp b sortingColumn
      in if jsNot aValue \<or> typeof aValue \<noteq> TNumber then JNum 0
         else if jsNot bValue \<or> typeof bValue \<noteq> TNumber then JNum 0
         else if desc then numMinus bValue aValue else numMinus aValue bValue)"

subsection \<open>Props, state and its initialisation\<close>

record SortingEntry =
  sort_id :: string
  sort_desc :: bool

text \<open>
  A column as the table keeps it: \<^verbatim>\<open>{ header: string; columnId: string }\<close>. The
  entries of \<^verbatim>\<open>rowLabels\<close> carry an optional cell renderer besides; it only produces
  markup and is left out.
\<close>

record Column =
  header :: string
  columnId :: string

record MobileTableProps =
  data :: nat
  sortingOrder :: "SortingEntry list"
  columnList :: "Column list"
  title :: "string option"
  rowLabels :: "Column list"
  columnSelectOptions :: "string list"

text \<open>
  \<open>data\<close> is the address of the row array in the heap defined below; a row is
  referred to by the address of its object. \<open>modal\<close> holds the title and the row whose
  details are shown.
\<close>

record MobileTableState =
  modal :: "(string option \<times> nat) option"
  columnSort :: "string option"
  desc :: bool
  columns :: "Column list"

text \<open>
  The four \<^verbatim>\<open>useState\<close> initialisers, in source order. \<^verbatim>\<open>sortingOrder[0]?.id\<close> is
  guarded by optional chaining; \<^verbatim>\<open>sortingOrder[0].desc || true\<close> is not, so reading
  \<^verbatim>\<open>.desc\<close> of undefined throws a TypeError when the array is empty.
\<close>

definition initialState :: "MobileTableProps \<Rightarrow> js_error + MobileTableState" where
  "initialState props =
     (let columnSort0 = (case sortingOrder props of [] \<Rightarrow> None | s # rest \<Rightarrow> Some (sort_id s))
      in case sortingOrder props of
           [] \<Rightarrow> Inl TypeError
         | s # rest \<Rightarrow>
             Inr \<lparr> modal = None,
                   columnSort = columnSort0,
                   desc = (sort_desc s \<or> True),
                   columns = columnList props \<rparr>)"

subsection \<open>Event handlers\<close>

text \<open>
  \<^verbatim>\<open>onChange\<close> of the "Table sort by" select:
  \<^verbatim>\<open>
  const value = e.target.value
  if (!value) return
  const filteredColumns = columns.filter((col) => col.columnId !== columnSort)
  setColumnSort(value)
  const newColumn = rowLabels.find((row) => row.columnId === value)
  if (!newColumn) return
  setColumns([...filteredColumns, newColumn])
  \<close>
\<close>

definition selectOnChange :: "MobileTableProps \<Rightarrow> string \<Rightarrow> MobileTableState \<Rightarrow> MobileTableState" where
  "selectOnChange props v st =
     (if v = [] then st
      else
        let filteredColumns = filter (\<lambda>col. Some (columnId col) \<noteq> columnSort st) (columns st);
            st1 = st \<lparr> columnSort := Some v \<rparr>
        in case find (\<lambda>row. columnId row = v) (rowLabels props) of
             None \<Rightarrow> st1
           | Some newColumn \<Rightarrow> st1 \<lparr> columns := filteredColumns @ [newColumn] \<rparr>)"

text \<open>
  A click on the header cell of column \<open>cid\<close>. The header row is rendered from
  \<open>columns\<close>; only the cell whose \<^verbatim>\<open>col.columnId === sortingColumn\<close> carries
  \<^verbatim>\<open>onClick={() => setDesc((state) => !state)}\<close>, every other cell has no handler.
\<close>

definition headerOnClick :: "string \<Rightarrow> MobileTableState \<Rightarrow> MobileTableState" where
  "headerOnClick cid st =
     (if cid \<in> columnId ` set (columns st) \<and> Some cid = columnSort st
      then st \<lparr> desc := \<not> desc st \<rparr>
      else st)"

text \<open>A click on a body row: \<^verbatim>\<open>setModal({ title, data: row })\<close>; closing: \<^verbatim>\<open>setModal(null)\<close>.\<close>

definition rowOnClick :: "MobileTableProps \<Rightarrow> nat \<Rightarrow> MobileTableState \<Rightarrow> MobileTableState" where
  "rowOnClick props row st = st \<lparr> modal := Some (title props, row) \<rparr>"

definition modalOnClose :: "MobileTableState \<Rightarrow> MobileTableState" where
  "modalOnClose st = st \<lparr> modal := None \<rparr>"

subsection \<open>Arrays in a heap, and \<open>sortedData\<close>\<close>

text \<open>
  \<^verbatim>\<open>Array.prototype.sort\<close> sorts the receiver in place, so whether the prop array is
  touched depends on which array object is sorted. Arrays therefore live in a heap:
  an array is a list of row references at an address, a row object is found at its
  reference, and \<open>nextAddr\<close> is the next fresh address.
\<close>

record heap =
  arrays :: "nat \<rightharpoonup> nat list"
  objects :: "nat \<Rightarrow> Type"
  nextAddr :: nat

definition heapOk :: "heap \<Rightarrow> bool" where
  "heapOk h = (\<forall>a \<in> dom (arrays h). a < nextAddr h)"

text \<open>
  The comparator's result as the sort reads it: \<open>x\<close> moves behind \<open>y\<close> when
  \<^verbatim>\<open>comparefn(x, y) > 0\<close>; NaN counts as 0.
\<close>

fun cmpPositive :: "jsval \<Rightarrow> bool" where
  "cmpPositive (JNum n) = (0 < n)"
| "cmpPositive v = False"

text \<open>
  The sort itself, as a stable insertion sort. For a comparator that is not a
  consistent ordering ECMAScript leaves the resulting order to the implementation;
  every implementation returns a rearrangement of the same elements.
\<close>

fun insertBy :: "('a \<Rightarrow> 'a \<Rightarrow> jsval) \<Rightarrow> 'a \<Rightarrow> 'a list \<Rightarrow> 'a list" where
  "insertBy cmp x [] = [x]"
| "insertBy cmp x (y # ys) =
     (if cmpPositive (cmp x y) then y # insertBy cmp x ys else x # y # ys)"

fun sortBy :: "('a \<Rightarrow> 'a \<Rightarrow> jsval) \<Rightarrow> 'a list \<Rightarrow> 'a list" where
  "sortBy cmp [] = []"
| "sortBy cmp (x # xs) = insertBy cmp x (sortBy cmp xs)"

text \<open>\<^verbatim>\<open>arr.map(f)\<close> allocates a new array; \<^verbatim>\<open>arr.sort(cmp)\<close> overwrites \<open>arr\<close> and returns it.
  Both give \<open>None\<close> when the receiver is not an array of the heap.\<close>

definition arrayMap :: "(nat \<Rightarrow> nat) \<Rightarrow> nat \<Rightarrow> heap \<Rightarrow> (nat \<times> heap) option" where
  "arrayMap f arr h =
     (case arrays h arr of
        None \<Rightarrow> None
      | Some xs \<Rightarrow>
          Some (nextAddr h,
                h \<lparr> arrays := (arrays h)(nextAddr h \<mapsto> map f xs),
                    nextAddr := Suc (nextAddr h) \<rparr>))"

definition arraySort :: "(nat \<Rightarrow> nat \<Rightarrow> jsval) \<Rightarrow> nat \<Rightarrow> heap \<Rightarrow> (nat \<times> heap) option" where
  "arraySort cmp arr h =
     (case arrays h arr of
        None \<Rightarrow> None
      | Some xs \<Rightarrow> Some (arr, h \<lparr> arrays := (arrays h)(arr \<mapsto> sortBy cmp xs) \<rparr>))"

text \<open>
  \<^verbatim>\<open>
  const sortingColumn = columnSort
  const sortedData = sortingColumn
    ? data.map((self) => self).sort((a, b) => ...)
    : data
  \<close>
  The condition is the truthiness of a \<^verbatim>\<open>string | undefined\<close>: undefined and the
  empty string take the \<^verbatim>\<open>: data\<close> branch. The result is the address of the array
  that the body rows are rendered from.
\<close>

definition sortedData :: "MobileTableProps \<Rightarrow> MobileTableState \<Rightarrow> heap \<Rightarrow> (nat \<times> heap) option" where
  "sortedData props st h =
     (case columnSort st of
        None \<Rightarrow> Some (data props, h)
      | Some sortingColumn \<Rightarrow>
          if sortingColumn = [] then Some (data props, h)
          else
            (case arrayMap (\<lambda>self. self) (data props) h of
               None \<Rightarrow> None
             | Some (copy, h1) \<Rightarrow>
                 arraySort
                   (\<lambda>a b. sortCompare sortingColumn (desc st) (objects h1 a) (objects h1 b))
                   copy h1))"

section \<open>Numbers and strings\<close>

text \<open>
  Decimal printing of a number, as a template literal or \<^verbatim>\<open>String(v)\<close> does it for
  integers below \<^verbatim>\<open>1e21\<close>, and the texts of the other values.
\<close>

function natToString :: "nat \<Rightarrow> string" where
  "natToString n =
     (if n < 10 then [''0123456789'' ! n]
      else natToString (n div 10) @ [''0123456789'' ! (n mod 10)])"
  by pat_completeness auto
termination
  by (relation "measure (\<lambda>n. n)") auto

fun jsToString :: "jsval \<Rightarrow> string" where
  "jsToString JUndefined = ''undefined''"
| "jsToString JNull = ''null''"
| "jsToString (JBool b) = (if b then ''true'' else ''false'')"
| "jsToString JNaN = ''NaN''"
| "jsToString (JNum n) = (if n < 0 then ''-'' @ natToString (nat (- n)) else natToString (nat n))"
| "jsToString (JStr s) = s"
| "jsToString JObj = ''[object Object]''"

text \<open>\<^verbatim>\<open>arr.join(sep)\<close> on an array of strings.\<close>

fun join :: "string \<Rightarrow> string list \<Rightarrow> string" where
  "join sep [] = []"
| "join sep [x] = x"
| "join sep (x # y # ys) = x @ sep @ join sep (y # ys)"

text \<open>
  \<^verbatim>\<open>parseInt(s, 10)\<close>: leading white space is skipped, one sign is read, then the
  longest run of decimal digits; no digit at all gives NaN. (Only the ASCII white
  space characters are recognised here.)
\<close>

definition isWhiteSpace :: "char \<Rightarrow> bool" where
  "isWhiteSpace c = (c \<in> set [CHR '' '', CHR 0x09, CHR 0x0A, CHR 0x0B, CHR 0x0C, CHR 0x0D])"

definition isDigit :: "char \<Rightarrow> bool" where
  "isDigit c = (c \<in> set ''0123456789'')"

definition digitValue :: "char \<Rightarrow> int" where
  "digitValue c = int (of_char c) - 48"

fun digitsValue :: "int \<Rightarrow> string \<Rightarrow> int" where
  "digitsValue acc [] = acc"
| "digitsValue acc (c # cs) = digitsValue (10 * acc + digitValue c) cs"

definition parseInt :: "string \<Rightarrow> jsval" where
  "parseInt s =
     (let s1 = dropWhile isWhiteSpace s;
          negative = (case s1 of [] \<Rightarrow> False | c # r \<Rightarrow> c = CHR ''-'');
          s2 = (case s1 of [] \<Rightarrow> [] | c # r \<Rightarrow> if c = CHR ''-'' \<or> c = CHR ''+'' then r else s1);
          ds = takeWhile isDigit s2
      in if ds = [] then JNaN
         else JNum (if negative then - digitsValue 0 ds else digitsValue 0 ds))"

text \<open>\<^verbatim>\<open>Math.min(x, y)\<close> on two numbers: NaN as soon as one of them is NaN.\<close>

fun mathMin :: "jsval \<Rightarrow> jsval \<Rightarrow> jsval" where
  "mathMin (JNum x) (JNum y) = JNum (min x y)"
| "mathMin x y = JNaN"

text \<open>\<^verbatim>\<open>x > y\<close> on two numbers: false as soon as one of them is NaN.\<close>

fun jsGreater :: "jsval \<Rightarrow> jsval \<Rightarrow> bool" where
  "jsGreater (JNum x) (JNum y) = (y < x)"
| "jsGreater x y = False"

section \<open>The undercut alert component\<close>

definition MAX_HOURS :: int where
  "MAX_HOURS = 24 * 30"

record UndercutProps =
  sellerId :: string
  homeServer :: string

record Info =
  addIds :: "string list"
  removeIds :: "string list"
  sellerIds :: "string list"
  hqOnly :: bool
  ignoreDataAfterHours :: jsval
  ignoreStackSize :: jsval

datatype FormName = AddIds | RemoveIds | SellerIds

record ModalState =
  form :: FormName
  isOpen :: bool

record UndercutState =
  info :: Info
  alertModal :: ModalState

definition undercutInitial :: "UndercutProps \<Rightarrow> UndercutState" where
  "undercutInitial props =
     \<lparr> info = \<lparr> addIds = [], removeIds = [], sellerIds = [sellerId props], hqOnly = False,
                ignoreDataAfterHours = JNum MAX_HOURS, ignoreStackSize = JNum 9999 \<rparr>,
       alertModal = \<lparr> form = RemoveIds, isOpen = False \<rparr> \<rparr>"

subsection \<open>The generated text blocks\<close>

definition nl :: string where
  "nl = [CHR 0x0A]"

text \<open>
  The two template literals, piece by piece in source order:
  \<^verbatim>\<open>
  const jsonData = `{
    "retainer_names": [${info.sellerIds.map((id) => `"${id}"`).join(',')}],
    "server": "${homeServer}",
    "add_ids": [${info.addIds.join(',')}],
    "ignore_ids": [${info.removeIds.join(',')}],
    "hq_only": ${info.hqOnly.toString()},
    "ignore_data_after_hours": ${info.ignoreDataAfterHours},
    "ignore_undercuts_with_quantity_over": ${info.ignoreStackSize}
  }`
  \<close>
\<close>

definition jsonData :: \<open>UndercutProps \<Rightarrow> Info \<Rightarrow> string\<close> where
  \<open>jsonData props i =
     ''{'' @ nl @
     ''  "retainer_names": ['' @ join '','' (map (\<lambda>id. ''"'' @ id @ ''"'') (sellerIds i)) @ ''],'' @ nl @
     ''  "server": "'' @ homeServer props @ ''",'' @ nl @
     ''  "add_ids": ['' @ join '','' (addIds i) @ ''],'' @ nl @
     ''  "ignore_ids": ['' @ join '','' (removeIds i) @ ''],'' @ nl @
     ''  "hq_only": '' @ jsToString (JBool (hqOnly i)) @ '','' @ nl @
     ''  "ignore_data_after_hours": '' @ jsToString (ignoreDataAfterHours i) @ '','' @ nl @
     ''  "ignore_undercuts_with_quantity_over": '' @ jsToString (ignoreStackSize i) @ nl @
     ''}''\<close>

definition salesAlertJson :: \<open>UndercutProps \<Rightarrow> Info \<Rightarrow> string\<close> where
  \<open>salesAlertJson props i =
     ''{'' @ nl @
     ''  "retainer_names": ['' @ join '','' (map (\<lambda>id. ''"'' @ id @ ''"'') (sellerIds i)) @ ''],'' @ nl @
     ''  "server": "'' @ homeServer props @ ''",'' @ nl @
     ''  "item_ids": []'' @ nl @
     ''}''\<close>

text \<open>
  The same block as the specification words it: a fixed template of seven fields, one
  per line, each \<open>"name": content\<close>, separated by commas and enclosed in braces; the
  contents are the seller ids in double quotes joined by commas, the home server in
  double quotes, the two id lists joined by commas, the boolean, and the two numbers.
\<close>

definition quoted :: \<open>string \<Rightarrow> string\<close> where
  \<open>quoted s = [CHR 0x22] @ s @ [CHR 0x22]\<close>

definition commaJoined :: "string list \<Rightarrow> string" where
  "commaJoined xs = concat (case xs of [] \<Rightarrow> [] | y # ys \<Rightarrow> y # map (\<lambda>z. CHR '','' # z) ys)"

definition templateField :: "string \<times> string \<Rightarrow> string" where
  "templateField f = ''  '' @ quoted (fst f) @ '': '' @ snd f"

definition jsonDataTemplate :: "UndercutProps \<Rightarrow> Info \<Rightarrow> string" where
  "jsonDataTemplate props i =
     ''{'' @ nl @
     join ('','' @ nl)
       (map templateField
         [(''retainer_names'', ''['' @ commaJoined (map quoted (sellerIds i)) @ '']''),
          (''server'', quoted (homeServer props)),
          (''add_ids'', ''['' @ commaJoined (addIds i) @ '']''),
          (''ignore_ids'', ''['' @ commaJoined (removeIds i) @ '']''),
          (''hq_only'', if hqOnly i then ''true'' else ''false''),
          (''ignore_data_after_hours'', jsToString (ignoreDataAfterHours i)),
          (''ignore_undercuts_with_quantity_over'', jsToString (ignoreStackSize i))]) @
     nl @ ''}''"

subsection \<open>The browser, and the copy buttons\<close>

text \<open>
  What the click handlers touch outside the component: whether \<^verbatim>\<open>window\<close> and
  \<^verbatim>\<open>document\<close> exist, \<^verbatim>\<open>window.isSecureContext\<close>, the clipboard text, and the alerts
  shown so far. The Clipboard API exists exactly in secure contexts, which is what the
  handler tests before it writes; a write refused for another reason is not modelled.
  \<^verbatim>\<open>
  if (typeof window !== 'undefined' && typeof document !== 'undefined') {
    if (!window.isSecureContext) {
      alert('Unable to copy.')
      return
    }
    await navigator.clipboard.writeText(jsonData)
    alert('Copied to clipboard!')
  }
  \<close>
\<close>

record Browser =
  windowDefined :: bool
  documentDefined :: bool
  isSecureContext :: bool
  clipboard :: string
  alerts :: "string list"

definition alert :: "string \<Rightarrow> Browser \<Rightarrow> Browser" where
  "alert msg env = env \<lparr> alerts := alerts env @ [msg] \<rparr>"

definition writeText :: "string \<Rightarrow> Browser \<Rightarrow> Browser" where
  "writeText txt env = env \<lparr> clipboard := txt \<rparr>"

definition copyOnClick :: "string \<Rightarrow> Browser \<Rightarrow> Browser" where
  "copyOnClick txt env =
     (if windowDefined env \<and> documentDefined env then
        (if \<not> isSecureContext env then alert ''Unable to copy.'' env
         else alert ''Copied to clipboard!'' (writeText txt env))
      else env)"

text \<open>
  The two buttons: the first copies \<open>jsonData\<close>, the second \<open>salesAlertJson\<close>. Neither
  handler calls a state setter, so the component state is handed back as it came.
\<close>

definition copyUndercutOnClick :: "UndercutProps \<Rightarrow> UndercutState \<times> Browser \<Rightarrow> UndercutState \<times> Browser" where
  "copyUndercutOnClick props sb = (fst sb, copyOnClick (jsonData props (info (fst sb))) (snd sb))"

definition copySalesOnClick :: "UndercutProps \<Rightarrow> UndercutState \<times> Browser \<Rightarrow> UndercutState \<times> Browser" where
  "copySalesOnClick props sb = (fst sb, copyOnClick (salesAlertJson props (info (fst sb))) (snd sb))"

subsection \<open>The other handlers of the component\<close>

text \<open>\<^verbatim>\<open>info[modal.form]\<close>, read and written.\<close>

fun getIds :: "FormName \<Rightarrow> Info \<Rightarrow> string list" where
  "getIds AddIds i = addIds i"
| "getIds RemoveIds i = removeIds i"
| "getIds SellerIds i = sellerIds i"

fun setIds :: "FormName \<Rightarrow> string list \<Rightarrow> Info \<Rightarrow> Info" where
  "setIds AddIds xs i = i \<lparr> addIds := xs \<rparr>"
| "setIds RemoveIds xs i = i \<lparr> removeIds := xs \<rparr>"
| "setIds SellerIds xs i = i \<lparr> sellerIds := xs \<rparr>"

text \<open>
  The radio buttons "All items" / "Selected items":
  \<^verbatim>\<open>
  if (value !== 'addIds' && value !== 'removeIds') return
  setModal({ form: value, open: false })
  setInfo({ ...info, addIds: [], removeIds: value === 'addIds' ? ['-1'] : [] })
  \<close>
\<close>

definition radioOnChange :: "string \<Rightarrow> UndercutState \<Rightarrow> UndercutState" where
  "radioOnChange v st =
     (if v \<noteq> ''addIds'' \<and> v \<noteq> ''removeIds'' then st
      else st \<lparr> alertModal := \<lparr> form = (if v = ''addIds'' then AddIds else RemoveIds), isOpen = False \<rparr>,
                info := (info st) \<lparr> addIds := [],
                                     removeIds := (if v = ''addIds'' then [''-1''] else []) \<rparr> \<rparr>)"

definition chooseFiltersOnClick :: "UndercutState \<Rightarrow> UndercutState" where
  "chooseFiltersOnClick st = st \<lparr> alertModal := (alertModal st) \<lparr> isOpen := True \<rparr> \<rparr>"

definition addAllRetainersOnClick :: "UndercutState \<Rightarrow> UndercutState" where
  "addAllRetainersOnClick st = st \<lparr> alertModal := \<lparr> form = SellerIds, isOpen = True \<rparr> \<rparr>"

definition hqOnlyOnChange :: "UndercutState \<Rightarrow> UndercutState" where
  "hqOnlyOnChange st = st \<lparr> info := (info st) \<lparr> hqOnly := \<not> hqOnly (info st) \<rparr> \<rparr>"

text \<open>
  "Stop alerting after":
  \<^verbatim>\<open>ignoreDataAfterHours: Math.min(parseInt(e.target.value, 10), MAX_HOURS)\<close>;
  "Ignore stacks larger than this":
  \<^verbatim>\<open>ignoreStackSize: parseInt(e.target.value, 10)\<close>.
\<close>

definition hoursOnChange :: "string \<Rightarrow> UndercutState \<Rightarrow> UndercutState" where
  "hoursOnChange v st =
     st \<lparr> info := (info st) \<lparr> ignoreDataAfterHours := mathMin (parseInt v) (JNum MAX_HOURS) \<rparr> \<rparr>"

definition stackSizeOnChange :: "string \<Rightarrow> UndercutState \<Rightarrow> UndercutState" where
  "stackSizeOnChange v st = st \<lparr> info := (info st) \<lparr> ignoreStackSize := parseInt v \<rparr> \<rparr>"

definition alertModalOnClose :: "UndercutState \<Rightarrow> UndercutState" where
  "alertModalOnClose st = st \<lparr> alertModal := (alertModal st) \<lparr> isOpen := False \<rparr> \<rparr>"

text \<open>
  The retainer input: \<^verbatim>\<open>if (e.key === 'Enter' && e.currentTarget.value)\<close> appends the
  value to \<open>sellerIds\<close>; a trash button filters its id out of the list.
\<close>

definition sellerOnKeyDown :: "string \<Rightarrow> string \<Rightarrow> UndercutState \<Rightarrow> UndercutState" where
  "sellerOnKeyDown key v st =
     (if key = ''Enter'' \<and> v \<noteq> []
      then st \<lparr> info := (info st) \<lparr> sellerIds := sellerIds (info st) @ [v] \<rparr> \<rparr>
      else st)"

definition sellerDeleteOnClick :: "string \<Rightarrow> UndercutState \<Rightarrow> UndercutState" where
  "sellerDeleteOnClick ident st =
     st \<lparr> info := (info st) \<lparr> sellerIds := filter (\<lambda>item. item \<noteq> ident) (sellerIds (info st)) \<rparr> \<rparr>"

definition itemOnSelectChange :: "string option \<Rightarrow> UndercutState \<Rightarrow> UndercutState" where
  "itemOnSelectChange selected st =
     (case selected of
        None \<Rightarrow> st
      | Some ident \<Rightarrow>
          st \<lparr> info := setIds (form (alertModal st))
                           (getIds (form (alertModal st)) (info st) @ [ident]) (info st) \<rparr>)"

definition itemDeleteOnClick :: "string \<Rightarrow> UndercutState \<Rightarrow> UndercutState" where
  "itemDeleteOnClick ident st =
     st \<lparr> info := setIds (form (alertModal st))
                     (filter (\<lambda>item. item \<noteq> ident) (getIds (form (alertModal st)) (info st)))
                     (info st) \<rparr>"

text \<open>
  Every event the rendered component can receive. The modal's content exists only
  while the modal is open: the retainer input and its list for the \<open>SellerIds\<close> form,
  the item search and its list otherwise. Both copy buttons carry
  \<^verbatim>\<open>disabled={isAddModal && info.addIds.length === 0}\<close>; a disabled button delivers
  no click.
\<close>

datatype UndercutEvent =
    RadioChange string
  | ChooseFiltersClick
  | AddAllRetainersClick
  | HqOnlyChange
  | HoursChange string
  | StackSizeChange string
  | CopyUndercutClick
  | CopySalesClick
  | AlertModalClose
  | SellerKeyDown string string
  | SellerDeleteClick string
  | ItemSelectChange "string option"
  | ItemDeleteClick string

definition copyDisabled :: "UndercutState \<Rightarrow> bool" where
  "copyDisabled st = (form (alertModal st) = AddIds \<and> addIds (info st) = [])"

fun undercutStep :: "UndercutProps \<Rightarrow> UndercutEvent \<Rightarrow> UndercutState \<times> Browser \<Rightarrow> UndercutState \<times> Browser" where
  "undercutStep props (RadioChange v) (st, env) = (radioOnChange v st, env)"
| "undercutStep props ChooseFiltersClick (st, env) = (chooseFiltersOnClick st, env)"
| "undercutStep props AddAllRetainersClick (st, env) = (addAllRetainersOnClick st, env)"
| "undercutStep props HqOnlyChange (st, env) = (hqOnlyOnChange st, env)"
| "undercutStep props (HoursChange v) (st, env) = (hoursOnChange v st, env)"
| "undercutStep props (StackSizeChange v) (st, env) = (stackSizeOnChange v st, env)"
| "undercutStep props CopyUndercutClick (st, env) =
     (if copyDisabled st then (st, env) else copyUndercutOnClick props (st, env))"
| "undercutStep props CopySalesClick (st, env) =
     (if copyDisabled st then (st, env) else copySalesOnClick props (st, env))"
| "undercutStep props AlertModalClose (st, env) =
     (if isOpen (alertModal st) then (alertModalOnClose st, env) else (st, env))"
| "undercutStep props (SellerKeyDown key v) (st, env) =
     (if isOpen (alertModal st) \<and> form (alertModal st) = SellerIds
      then (sellerOnKeyDown key v st, env) else (st, env))"
| "undercutStep props (SellerDeleteClick ident) (st, env) =
     (if isOpen (alertModal st) \<and> form (alertModal st) = SellerIds
      then (sellerDeleteOnClick ident st, env) else (st, env))"
| "undercutStep props (ItemSelectChange selected) (st, env) =
     (if isOpen (alertModal st) \<and> form (alertModal st) \<noteq> SellerIds
      then (itemOnSelectChange selected st, env) else (st, env))"
| "undercutStep props (ItemDeleteClick ident) (st, env) =
     (if isOpen (alertModal st) \<and> form (alertModal st) \<noteq> SellerIds
      then (itemDeleteOnClick ident st, env) else (st, env))"

fun undercutRun :: "UndercutProps \<Rightarrow> UndercutEvent list \<Rightarrow> UndercutState \<times> Browser \<Rightarrow> UndercutState \<times> Browser" where
  "undercutRun props [] sb = sb"
| "undercutRun props (ev # evs) sb = undercutRun props evs (undercutStep props ev sb)"

section \<open>The full-scan results table\<close>

subsection \<open>Fuzzy filter\<close>

text \<open>
  \<^verbatim>\<open>rankItem\<close> is the ranking function of the match-sorter library. It is not part of
  this repository, so every definition that calls it takes it as the parameter
  \<open>rankItem\<close>; of its result only the field \<^verbatim>\<open>passed\<close> is read here.
\<close>

record RankingInfo =
  passed :: bool

type_synonym ranker = "jsval \<Rightarrow> string \<Rightarrow> RankingInfo"

text \<open>\<^verbatim>\<open>row.getValue(columnId)\<close> of an accessor column: the row's field of that key.\<close>

definition getValue :: "Type \<Rightarrow> string \<Rightarrow> jsval" where
  "getValue row cid = getProp row cid"

text \<open>
  \<^verbatim>\<open>
  const fuzzyFilter: FilterFn<any> = (row, columnId, value, addMeta) => {
    const itemRank = rankItem(row.getValue(columnId), value)
    addMeta({ itemRank })
    return itemRank.passed
  }
  \<close>
  The first component of the result is the meta information handed to \<^verbatim>\<open>addMeta\<close>,
  the second the returned boolean.
\<close>

definition fuzzyFilter :: "ranker \<Rightarrow> Type \<Rightarrow> string \<Rightarrow> string \<Rightarrow> RankingInfo \<times> bool" where
  "fuzzyFilter rankItem row cid v =
     (let itemRank = rankItem (getValue row cid) v
      in (itemRank, passed itemRank))"

subsection \<open>Columns\<close>

text \<open>The accessor keys of \<^verbatim>\<open>columns\<close>, in source order.\<close>

definition resultColumns :: "string list" where
  "resultColumns =
     [''real_name'', ''profit_amount'', ''avg_ppu'', ''home_server_price'',
      ''home_update_time'', ''ppu'', ''profit_raw_percent'', ''sale_rates'', ''server'',
      ''stack_size'', ''update_time'', ''ROI'', ''url'', ''npc_vendor_info'', ''item_id'',
      ''regionWeeklyMedianNQ'', ''regionWeeklyAverageNQ'', ''regionWeeklySalesAmountNQ'',
      ''regionWeeklyQuantitySoldNQ'', ''regionWeeklyMedianHQ'', ''regionWeeklyAverageHQ'',
      ''regionWeeklySalesAmountHQ'', ''regionWeeklyQuantitySoldHQ'']"

text \<open>\<^verbatim>\<open>cvsFileList\<close>: title and field of every exported column.\<close>

definition cvsFileList :: "(string \<times> string) list" where
  "cvsFileList =
     [(''Item Id'', ''item_id''),
      (''Item Name'', ''real_name''),
      (''Profit Amount'', ''profit_amount''),
      (''Avg Price Per Unit'', ''avg_ppu''),
      (''Home Price'', ''home_server_price''),
      (''Home Updated'', ''home_update_time''),
      (''Lowest Price'', ''ppu''),
      (''Profit %'', ''profit_raw_percent''),
      (''Return on Investment %'', ''ROI''),
      (''Average Sales Per Hour'', ''sale_rates''),
      (''Lowest Price Server'', ''server''),
      (''Lowest Price Stack Size'', ''stack_size''),
      (''Lowest Price Last Update Time'', ''update_time''),
      (''Universalis Link'', ''url''),
      (''NPC Vendor Info'', ''npc_vendor_info''),
      (''Region Weekly Median NQ'', ''regionWeeklyMedianNQ''),
      (''Region Weekly Average NQ'', ''regionWeeklyAverageNQ''),
      (''Region Weekly Sales Amount NQ'', ''regionWeeklySalesAmountNQ''),
      (''Region Weekly Quantity Sold NQ'', ''regionWeeklyQuantitySoldNQ''),
      (''Region Weekly Median HQ'', ''regionWeeklyMedianHQ''),
      (''Region Weekly Average HQ'', ''regionWeeklyAverageHQ''),
      (''Region Weekly Sales Amount HQ'', ''regionWeeklySalesAmountHQ''),
      (''Region Weekly Quantity Sold HQ'', ''regionWeeklyQuantitySoldHQ'')]"

subsection \<open>State\<close>

text \<open>
  The component keeps the search text in \<open>globalFilter\<close> (initially empty). Its other
  \<^verbatim>\<open>useState\<close>, \<^verbatim>\<open>columnFilters\<close>, starts as the empty list and nothing the component
  renders ever sets a column filter, so it is left out. The column order lives in the
  Redux store as \<^verbatim>\<open>state.user.ffScanSortOrder\<close>.
\<close>

record ResultsState =
  globalFilter :: string

record UserState =
  ffScanSortOrder :: "string list"
  darkmode :: bool

datatype UserAction = SetFFScanOrder "string list"

text \<open>
  Modelled from the spec: the reducer \<^verbatim>\<open>setFFScanOrder\<close> of
  \<^verbatim>\<open>~/redux/reducers/userSlice\<close>, which is not among the source files. The
  specification has "clicking reset restores default column order": the order that is
  dispatched becomes the stored column order.
\<close>

fun userReducer :: "UserState \<Rightarrow> UserAction \<Rightarrow> UserState" where
  "userReducer u (SetFFScanOrder order) = u \<lparr> ffScanSortOrder := order \<rparr>"

definition dispatch :: "UserAction \<Rightarrow> UserState \<Rightarrow> UserState" where
  "dispatch action u = userReducer u action"

text \<open>
  \<^verbatim>\<open>const handleColumnReset = () => dispatch(setFFScanOrder(defaultSortOrder))\<close>.
  The constant \<^verbatim>\<open>defaultSortOrder\<close> comes from a file that is not among the sources
  and is a parameter.
\<close>

definition handleColumnReset :: "string list \<Rightarrow> UserState \<Rightarrow> UserState" where
  "handleColumnReset defaultSortOrder u = dispatch (SetFFScanOrder defaultSortOrder) u"

text \<open>The search box: \<^verbatim>\<open>onDebouncedChange={(value) => { setGlobalFilter(value) }}\<close>.\<close>

definition searchOnDebouncedChange :: "string \<Rightarrow> ResultsState \<Rightarrow> ResultsState" where
  "searchOnDebouncedChange v st = st \<lparr> globalFilter := v \<rparr>"

text \<open>
  The \<^verbatim>\<open>state\<close> option handed to \<^verbatim>\<open>useReactTable\<close>:
  \<^verbatim>\<open>{ columnFilters, globalFilter, columnOrder: sortOrder }\<close> with
  \<^verbatim>\<open>sortOrder = useTypedSelector((state) => state.user.ffScanSortOrder)\<close>.
\<close>

record TableState =
  tableGlobalFilter :: string
  columnOrder :: "string list"

definition tableState :: "ResultsState \<Rightarrow> UserState \<Rightarrow> TableState" where
  "tableState st u = \<lparr> tableGlobalFilter = globalFilter st, columnOrder = ffScanSortOrder u \<rparr>"

subsection \<open>The table engine\<close>

text \<open>
  Modelled from the spec: the filtered row model of the table engine
  (\<^verbatim>\<open>getFilteredRowModel\<close> of the table library), which is not among the source files.
  The specification describes a global fuzzy filter whose search text narrows the
  visible rows. The engine is configured with \<^verbatim>\<open>globalFilterFn: fuzzyFilter\<close> and
  \<^verbatim>\<open>getColumnCanGlobalFilter: () => true\<close>: it offers the row and the search text to
  the filter function column by column, and keeps the row at the first column for
  which the function returns true. (With an empty search text the engine shows every
  row without asking the filter function; a text matcher passes the empty text for
  every value, so the visible rows are the same.)
\<close>

fun passesGlobalFilter ::
  "(Type \<Rightarrow> string \<Rightarrow> string \<Rightarrow> RankingInfo \<times> bool) \<Rightarrow> string list \<Rightarrow> string \<Rightarrow> Type \<Rightarrow> bool" where
  "passesGlobalFilter globalFilterFn [] v row = False"
| "passesGlobalFilter globalFilterFn (c # cs) v row =
     (if snd (globalFilterFn row c v) then True
      else passesGlobalFilter globalFilterFn cs v row)"

definition getFilteredRowModel ::
  "(Type \<Rightarrow> string \<Rightarrow> string \<Rightarrow> RankingInfo \<times> bool) \<Rightarrow> string list \<Rightarrow> string \<Rightarrow> Type list \<Rightarrow> Type list" where
  "getFilteredRowModel globalFilterFn cols v rows =
     filter (passesGlobalFilter globalFilterFn cols v) rows"

text \<open>
  \<^verbatim>\<open>table.getRowModel()\<close>: the filtered rows in the order of the current sort state.
  The engine's sorting is the parameter \<open>getSortedRowModel\<close>, one function per sort
  state; the theorems ask of it only that it rearranges the rows it is given.
\<close>

definition getRowModel :: "(Type list \<Rightarrow> Type list) \<Rightarrow> ranker \<Rightarrow> TableState \<Rightarrow> Type list \<Rightarrow> Type list" where
  "getRowModel getSortedRowModel rankItem ts rows =
     getSortedRowModel
       (getFilteredRowModel (fuzzyFilter rankItem) resultColumns (tableGlobalFilter ts) rows)"

subsection \<open>What the component renders\<close>

text \<open>
  Of the rendered tree: the props of the CSV button (it occurs twice, for the wide and
  the narrow layout, with the same props
  \<^verbatim>\<open>data={rows} columns={cvsFileList} filename="saddlebag-fullscan.csv"\<close>), the body rows
  \<^verbatim>\<open>table.getRowModel().rows\<close>, the column order of the table, the footer count
  \<^verbatim>\<open>rows.length\<close>, and the \<^verbatim>\<open>data={rows}\<close> of the mobile table.
\<close>

record ResultsView =
  csvData :: "Type list"
  csvColumns :: "(string \<times> string) list"
  csvFilename :: string
  tableRows :: "Type list"
  tableColumnOrder :: "string list"
  resultsFound :: nat
  mobileData :: "Type list"

definition renderResults ::
  "(Type list \<Rightarrow> Type list) \<Rightarrow> ranker \<Rightarrow> Type list \<Rightarrow> ResultsState \<Rightarrow> UserState \<Rightarrow> ResultsView" where
  "renderResults getSortedRowModel rankItem rows st u =
     \<lparr> csvData = rows,
       csvColumns = cvsFileList,
       csvFilename = ''saddlebag-fullscan.csv'',
       tableRows = getRowModel getSortedRowModel rankItem (tableState st u) rows,
       tableColumnOrder = columnOrder (tableState st u),
       resultsFound = length rows,
       mobileData = rows \<rparr>"

subsection \<open>Sample instances of the parameters\<close>

text \<open>
  For closed instances of the theorems the parameters need values. \<open>sampleRankItem\<close>
  passes when the characters of the search text occur, in order, in the text of the
  value; \<open>sampleSorted\<close> is the table's default sort state, descending by
  \<^verbatim>\<open>profit_amount\<close>. The theorems themselves hold for every ranker.
\<close>

fun occursInOrder :: "string \<Rightarrow> string \<Rightarrow> bool" where
  "occursInOrder [] ys = True"
| "occursInOrder (x # xs) [] = False"
| "occursInOrder (x # xs) (y # ys) =
     (if x = y then occursInOrder xs ys else occursInOrder (x # xs) ys)"

definition sampleRankItem :: ranker where
  "sampleRankItem item v = \<lparr> passed = occursInOrder v (jsToString item) \<rparr>"

definition sampleSorted :: "Type list \<Rightarrow> Type list" where
  "sampleSorted rows = sortBy (sortCompare ''profit_amount'' True) rows"

section \<open>Sample inputs\<close>

text \<open>Concrete rows, states and browsers for the closed instances below.\<close>

definition potion :: Type where
  "potion = [''real_name'' \<mapsto> JStr ''Potion'', ''profit_amount'' \<mapsto> JNum 5]"

definition ether :: Type where
  "ether = [''real_name'' \<mapsto> JStr ''Ether'', ''profit_amount'' \<mapsto> JNum 0]"

definition elixir :: Type where
  "elixir = [''real_name'' \<mapsto> JStr ''Elixir'', ''profit_amount'' \<mapsto> JNum 9]"

definition sampleUser :: UserState where
  "sampleUser = \<lparr> ffScanSortOrder = [''real_name'', ''profit_amount''], darkmode = False \<rparr>"

definition sampleProps :: UndercutProps where
  "sampleProps = \<lparr> sellerId = ''abc123'', homeServer = ''Midgardsormr'' \<rparr>"

definition insecureBrowser :: Browser where
  "insecureBrowser = \<lparr> windowDefined = True, documentDefined = True, isSecureContext = False,
                         clipboard = ''earlier text'', alerts = [] \<rparr>"

definition secureBrowser :: Browser where
  "secureBrowser = \<lparr> windowDefined = True, documentDefined = True, isSecureContext = True,
                       clipboard = ''earlier text'', alerts = [] \<rparr>"

definition sampleMobileProps :: MobileTableProps where
  "sampleMobileProps =
     \<lparr> data = 0,
       sortingOrder = [\<lparr> sort_id = ''profit_amount'', sort_desc = False \<rparr>],
       columnList = [\<lparr> header = ''Item Name'', columnId = ''real_name'' \<rparr>,
                     \<lparr> header = ''Profit Amount'', columnId = ''profit_amount'' \<rparr>],
       title = None,
       rowLabels = [\<lparr> header = ''Item Name'', columnId = ''real_name'' \<rparr>,
                    \<lparr> header = ''Profit Amount'', columnId = ''profit_amount'' \<rparr>],
       columnSelectOptions = [''profit_amount''] \<rparr>"

definition sampleMobileState :: MobileTableState where
  "sampleMobileState =
     \<lparr> modal = None, columnSort = Some ''profit_amount'', desc = True,
       columns = [\<lparr> header = ''Item Name'', columnId = ''real_name'' \<rparr>,
                  \<lparr> header = ''Profit Amount'', columnId = ''profit_amount'' \<rparr>] \<rparr>"

text \<open>A heap with the prop array at address 0, holding the rows 10 (potion) and 12 (elixir).\<close>

definition sampleHeap :: heap where
  "sampleHeap =
     \<lparr> arrays = [0 \<mapsto> [10, 12]],
       objects = (\<lambda>r. if r = 10 then potion else if r = 12 then elixir else Map.empty),
       nextAddr = 1 \<rparr>"

text \<open>The bound that the hours handler maintains.\<close>

definition hoursOk :: "UndercutState \<Rightarrow> bool" where
  "hoursOk st = (\<not> jsGreater (ignoreDataAfterHours (info st)) (JNum MAX_HOURS))"

section \<open>Auxiliary lemmas\<close>

lemma mset_insertBy: "mset (insertBy cmp x ys) = add_mset x (mset ys)"
  by (induction ys) simp_all

lemma mset_sortBy: "mset (sortBy cmp xs) = mset xs"
  by (induction xs) (simp_all add: mset_insertBy)

lemma set_sortBy: "set (sortBy cmp xs) = set xs"
  using mset_sortBy [of cmp xs] by (metis set_mset_mset)

lemma set_sampleSorted: "set (sampleSorted xs) = set xs"
  by (simp add: sampleSorted_def set_sortBy)

lemma passesGlobalFilter_iff:
  "passesGlobalFilter f cols v row \<longleftrightarrow> (\<exists>c \<in> set cols. snd (f row c v))"
  by (induction cols) auto

lemma set_getFilteredRowModel:
  "set (getFilteredRowModel f cols v rows) = {r \<in> set rows. \<exists>c \<in> set cols. snd (f r c v)}"
  by (auto simp: getFilteredRowModel_def passesGlobalFilter_iff)

lemmas render_defs =
  renderResults_def getRowModel_def getFilteredRowModel_def tableState_def fuzzyFilter_def
  resultColumns_def sampleRankItem_def sampleSorted_def getValue_def getProp_def potion_def
  ether_def searchOnDebouncedChange_def sortCompare_def

lemma join_comma: "join '','' xs = commaJoined xs"
proof (induction "'',''" xs rule: join.induct)
  case 1
  show ?case by (simp add: commaJoined_def)
next
  case (2 x)
  show ?case by (simp add: commaJoined_def)
next
  case (3 x y ys)
  then show ?case by (simp add: commaJoined_def)
qed

lemma quoted_fun: \<open>quoted = (\<lambda>s. ''"'' @ s @ ''"'')\<close>
  by (rule ext) (simp add: quoted_def)

lemma mathMin_not_greater: "\<not> jsGreater (mathMin x (JNum m)) (JNum m)"
  by (cases x) simp_all

lemma setIds_hours: "ignoreDataAfterHours (setIds f xs i) = ignoreDataAfterHours i"
  by (cases f) simp_all

lemma step_hoursOk: "hoursOk (fst sb) \<Longrightarrow> hoursOk (fst (undercutStep props ev sb))"
  by (cases sb; cases ev)
     (simp_all add: hoursOk_def radioOnChange_def chooseFiltersOnClick_def
        addAllRetainersOnClick_def hqOnlyOnChange_def hoursOnChange_def stackSizeOnChange_def
        copyUndercutOnClick_def copySalesOnClick_def alertModalOnClose_def sellerOnKeyDown_def
        sellerDeleteOnClick_def itemOnSelectChange_def itemDeleteOnClick_def setIds_hours
        mathMin_not_greater split: option.splits)

lemma run_hoursOk: "hoursOk (fst sb) \<Longrightarrow> hoursOk (fst (undercutRun props evs sb))"
  by (induction evs arbitrary: sb) (simp_all add: step_hoursOk)

section \<open>The claims\<close>

text \<open>
  C1. As stated, the claim reads: for every filter text and sort state the rows handed
  to the CSV export are the rows visible in the table after global filtering. The
  component hands \<^verbatim>\<open>data={rows}\<close>, its whole input, to both CSV buttons, so the
  statement that holds is: for every filter text and every sort state the CSV export
  receives exactly the input rows of the component, and the rows visible in the table
  are a subset of the exported rows.
\<close>

theorem csv_exports_all_rows:
  assumes "\<And>xs. set (getSortedRowModel xs) = set xs"
  shows "csvData (renderResults getSortedRowModel rankItem rows st u) = rows
       \<and> set (tableRows (renderResults getSortedRowModel rankItem rows st u))
           \<subseteq> set (csvData (renderResults getSortedRowModel rankItem rows st u))"
  using assms by (auto simp: renderResults_def getRowModel_def set_getFilteredRowModel)

text \<open>
  An instance: with the search text "Pot" the table shows one of two rows, the export
  still holds both.
\<close>

theorem csv_exports_all_rows_witness:
  "csvData (renderResults sampleSorted sampleRankItem [potion, ether]
       \<lparr> globalFilter = ''Pot'' \<rparr> sampleUser) = [potion, ether]
   \<and> tableRows (renderResults sampleSorted sampleRankItem [potion, ether]
       \<lparr> globalFilter = ''Pot'' \<rparr> sampleUser) = [potion]"
  using csv_exports_all_rows [of sampleSorted sampleRankItem "[potion, ether]"
          "\<lparr> globalFilter = ''Pot'' \<rparr>" sampleUser, OF set_sampleSorted]
  by (simp add: render_defs)

text \<open>
  The claim as stated fails: with one row named "Potion" and the search text "zzz" the
  table shows no row, while the CSV export is handed the row.
\<close>

theorem csv_equals_visible_counterexample:
  "set (csvData (renderResults sampleSorted sampleRankItem [potion]
          \<lparr> globalFilter = ''zzz'' \<rparr> sampleUser))
   \<noteq> set (tableRows (renderResults sampleSorted sampleRankItem [potion]
          \<lparr> globalFilter = ''zzz'' \<rparr> sampleUser))"
  by (simp add: render_defs)

text \<open>
  C2. With \<^verbatim>\<open>window\<close> and \<^verbatim>\<open>document\<close> present, as they are whenever a click arrives:
  in a context that is not secure either copy button shows the alert "Unable to copy."
  and leaves the clipboard and the component state as they were; in a secure context
  it writes exactly the generated text (\<open>jsonData\<close> for the first button,
  \<open>salesAlertJson\<close> for the second) to the clipboard, shows "Copied to clipboard!",
  and leaves the component state as it was.
\<close>

theorem copy_click_behaviour:
  assumes "windowDefined env" and "documentDefined env"
  shows "(\<not> isSecureContext env \<longrightarrow>
            copyUndercutOnClick props (st, env)
              = (st, env \<lparr> alerts := alerts env @ [''Unable to copy.''] \<rparr>)
          \<and> copySalesOnClick props (st, env)
              = (st, env \<lparr> alerts := alerts env @ [''Unable to copy.''] \<rparr>))
       \<and> (isSecureContext env \<longrightarrow>
            copyUndercutOnClick props (st, env)
              = (st, env \<lparr> clipboard := jsonData props (info st),
                           alerts := alerts env @ [''Copied to clipboard!''] \<rparr>)
          \<and> copySalesOnClick props (st, env)
              = (st, env \<lparr> clipboard := salesAlertJson props (info st),
                           alerts := alerts env @ [''Copied to clipboard!''] \<rparr>))"
  using assms
  by (simp add: copyUndercutOnClick_def copySalesOnClick_def copyOnClick_def alert_def
        writeText_def)

theorem copy_click_behaviour_witness:
  "copyUndercutOnClick sampleProps (undercutInitial sampleProps, insecureBrowser)
     = (undercutInitial sampleProps,
        \<lparr> windowDefined = True, documentDefined = True, isSecureContext = False,
          clipboard = ''earlier text'', alerts = [''Unable to copy.''] \<rparr>)
   \<and> copyUndercutOnClick sampleProps (undercutInitial sampleProps, secureBrowser)
     = (undercutInitial sampleProps,
        \<lparr> windowDefined = True, documentDefined = True, isSecureContext = True,
          clipboard = jsonData sampleProps (info (undercutInitial sampleProps)),
          alerts = [''Copied to clipboard!''] \<rparr>)"
  using copy_click_behaviour [of insecureBrowser sampleProps "undercutInitial sampleProps"]
        copy_click_behaviour [of secureBrowser sampleProps "undercutInitial sampleProps"]
  by (simp add: insecureBrowser_def secureBrowser_def)

text \<open>
  C3. The claim: the comparator of the mobile table returns 0 when either row's value in
  the sort column is absent or not a number, and the numeric difference otherwise. The
  guard \<^verbatim>\<open>!aValue\<close> is also true for the number 0: for a row whose profit is 0 and a
  row whose profit is 5, both values are numbers and their difference is -5, yet the
  comparator (ascending) returns 0.
\<close>

theorem sortCompare_skips_zero:
  "sortCompare ''profit_amount'' False ether potion = JNum 0
   \<and> typeof (getProp ether ''profit_amount'') = TNumber
   \<and> typeof (getProp potion ''profit_amount'') = TNumber
   \<and> numMinus (getProp ether ''profit_amount'') (getProp potion ''profit_amount'') = JNum (- 5)"
  by (simp add: sortCompare_def getProp_def ether_def potion_def)

text \<open>
  C4. Typing in the search box narrows the visible rows: after the search text \<open>v\<close> has
  been entered, the rows rendered by the table are a subset of the input rows, and a
  row is visible if and only if it is an input row and the fuzzy ranking of the value
  of one of its columns against \<open>v\<close> passes. This holds for every ranker and every
  sort state.
\<close>

theorem search_narrows_rows:
  assumes "\<And>xs. set (getSortedRowModel xs) = set xs"
  shows "set (tableRows (renderResults getSortedRowModel rankItem rows
                (searchOnDebouncedChange v st) u)) \<subseteq> set rows
       \<and> (\<forall>r. r \<in> set (tableRows (renderResults getSortedRowModel rankItem rows
                          (searchOnDebouncedChange v st) u))
              \<longleftrightarrow> r \<in> set rows
                  \<and> (\<exists>c \<in> set resultColumns. passed (rankItem (getValue r c) v)))"
  using assms
  by (auto simp: renderResults_def getRowModel_def set_getFilteredRowModel tableState_def
        searchOnDebouncedChange_def fuzzyFilter_def Let_def)

theorem search_narrows_rows_witness:
  "potion \<in> set (tableRows (renderResults sampleSorted sampleRankItem [potion, ether]
                    (searchOnDebouncedChange ''Pot'' \<lparr> globalFilter = [] \<rparr>) sampleUser))
   \<and> ether \<notin> set (tableRows (renderResults sampleSorted sampleRankItem [potion, ether]
                    (searchOnDebouncedChange ''Pot'' \<lparr> globalFilter = [] \<rparr>) sampleUser))"
proof -
  have visible: "r \<in> set (tableRows (renderResults sampleSorted sampleRankItem [potion, ether]
                    (searchOnDebouncedChange ''Pot'' \<lparr> globalFilter = [] \<rparr>) sampleUser))
      \<longleftrightarrow> r \<in> set [potion, ether]
          \<and> (\<exists>c \<in> set resultColumns. passed (sampleRankItem (getValue r c) ''Pot''))" for r
    using search_narrows_rows [of sampleSorted sampleRankItem "[potion, ether]" "''Pot''"
            "\<lparr> globalFilter = [] \<rparr>" sampleUser, OF set_sampleSorted]
    by blast
  have p: "\<exists>c \<in> set resultColumns. passed (sampleRankItem (getValue potion c) ''Pot'')"
    by (simp add: resultColumns_def sampleRankItem_def getValue_def getProp_def potion_def)
  have e: "\<not> (\<exists>c \<in> set resultColumns. passed (sampleRankItem (getValue ether c) ''Pot''))"
    by (simp add: resultColumns_def sampleRankItem_def getValue_def getProp_def ether_def)
  show ?thesis
    unfolding visible using p e by simp
qed

text \<open>
  C5. In the mobile table a click on a header cell, done twice, restores the state it
  started from; and when the cell is the header of the current sort column, one click
  flips the descending flag and changes nothing else.
\<close>

theorem header_click_toggles:
  "headerOnClick cid (headerOnClick cid st) = st
   \<and> (columnSort st = Some cid \<and> cid \<in> columnId ` set (columns st)
        \<longrightarrow> desc (headerOnClick cid st) = (\<not> desc st)
          \<and> columnSort (headerOnClick cid st) = columnSort st
          \<and> columns (headerOnClick cid st) = columns st
          \<and> modal (headerOnClick cid st) = modal st)"
  by (simp add: headerOnClick_def)

theorem header_click_toggles_witness:
  "desc sampleMobileState = True
   \<and> desc (headerOnClick ''profit_amount'' sampleMobileState) = False
   \<and> headerOnClick ''profit_amount'' (headerOnClick ''profit_amount'' sampleMobileState)
       = sampleMobileState"
  using header_click_toggles [of "''profit_amount''" sampleMobileState]
  by (simp add: sampleMobileState_def)

text \<open>
  C6. For every current column order, the "Reset table columns" button dispatches the
  default column order; afterwards the stored order, the column order handed to the
  table and the column order of the rendered table all equal the default order.
\<close>

theorem reset_restores_default_order:
  "ffScanSortOrder (handleColumnReset defaultSortOrder u) = defaultSortOrder
   \<and> columnOrder (tableState st (handleColumnReset defaultSortOrder u)) = defaultSortOrder
   \<and> tableColumnOrder (renderResults getSortedRowModel rankItem rows st
        (handleColumnReset defaultSortOrder u)) = defaultSortOrder"
  by (simp add: handleColumnReset_def dispatch_def tableState_def renderResults_def)

theorem reset_restores_default_order_witness:
  "tableColumnOrder (renderResults sampleSorted sampleRankItem [potion] \<lparr> globalFilter = [] \<rparr>
        (handleColumnReset [''profit_amount'', ''real_name''] sampleUser))
     = [''profit_amount'', ''real_name'']"
  using reset_restores_default_order [of "[''profit_amount'', ''real_name'']" sampleUser
          "\<lparr> globalFilter = [] \<rparr>" sampleSorted sampleRankItem "[potion]"]
  by simp

text \<open>
  C7. The mobile table never changes the row data it is given: for every state of the
  component, computing \<open>sortedData\<close> succeeds, leaves the prop array and every other
  array that existed before as it was, leaves every row object as it was, and yields an
  array holding the same rows as the prop array. The array that is sorted in place is
  the copy made by \<^verbatim>\<open>map\<close>.
\<close>

theorem sortedData_frame:
  assumes "arrays h (data props) = Some xs" and "heapOk h"
  shows "\<exists>res h' ys. sortedData props st h = Some (res, h')
           \<and> arrays h' res = Some ys \<and> mset ys = mset xs
           \<and> arrays h' (data props) = Some xs
           \<and> (\<forall>a \<in> dom (arrays h). arrays h' a = arrays h a)
           \<and> objects h' = objects h"
proof (cases "columnSort st")
  case None
  with assms show ?thesis by (simp add: sortedData_def)
next
  case (Some c)
  show ?thesis
  proof (cases "c = []")
    case True
    with Some assms show ?thesis by (simp add: sortedData_def)
  next
    case False
    have fresh: "nextAddr h \<notin> dom (arrays h)"
      using assms(2) by (auto simp: heapOk_def)
    with Some False assms(1) show ?thesis
      by (auto simp: sortedData_def arrayMap_def arraySort_def mset_sortBy)
  qed
qed

text \<open>
  An instance: sorting two rows by descending profit yields a new array at address 1 in
  the opposite order, and the prop array at address 0 keeps its order.
\<close>

theorem sortedData_frame_witness:
  "\<exists>h'. sortedData sampleMobileProps sampleMobileState sampleHeap = Some (1, h')
      \<and> arrays h' 1 = Some [12, 10]
      \<and> arrays h' 0 = Some [10, 12]
      \<and> objects h' = objects sampleHeap"
proof -
  have a: "arrays sampleHeap (data sampleMobileProps) = Some [10, 12]"
    by (simp add: sampleHeap_def sampleMobileProps_def)
  have b: "heapOk sampleHeap"
    by (simp add: sampleHeap_def heapOk_def)
  have c: "\<exists>h'. sortedData sampleMobileProps sampleMobileState sampleHeap = Some (1, h')
             \<and> arrays h' 1 = Some [12, 10]"
    by (simp add: sortedData_def sampleMobileProps_def sampleMobileState_def sampleHeap_def
          arrayMap_def arraySort_def sortCompare_def getProp_def potion_def elixir_def)
  from sortedData_frame [OF a b, of sampleMobileState] c show ?thesis
    by (auto simp: sampleMobileProps_def)
qed

text \<open>
  C8. The undercut-alert text block is the fixed template filled from the current
  state: for every state the generated text equals the template whose
  \<open>retainer_names\<close> field holds each seller id in double quotes joined by commas, whose
  \<open>server\<close> field holds the home server, whose \<open>add_ids\<close> and \<open>ignore_ids\<close> fields hold the
  respective id lists joined by commas, whose \<open>hq_only\<close> field holds the boolean, and
  whose hours and stack-size fields hold the two numbers.
\<close>

theorem jsonData_is_template: "jsonData props i = jsonDataTemplate props i"
  by (simp add: jsonData_def jsonDataTemplate_def templateField_def join_comma quoted_fun)

text \<open>The text shown for a new component, line by line.\<close>

theorem jsonData_is_template_witness:
  \<open>jsonData sampleProps (info (undercutInitial sampleProps)) =
     join nl
       [''{'',
        ''  "retainer_names": ["abc123"],'',
        ''  "server": "Midgardsormr",'',
        ''  "add_ids": [],'',
        ''  "ignore_ids": [],'',
        ''  "hq_only": false,'',
        ''  "ignore_data_after_hours": 720,'',
        ''  "ignore_undercuts_with_quantity_over": 9999'',
        ''}'']\<close>
  using jsonData_is_template [of sampleProps "info (undercutInitial sampleProps)"]
  by (simp add: jsonDataTemplate_def templateField_def quoted_def commaJoined_def
        undercutInitial_def sampleProps_def MAX_HOURS_def)

text \<open>
  C9. For every non-empty \<open>sortingOrder\<close> the mobile table starts in descending
  direction, whatever the \<open>desc\<close> flag of the first entry says, because the initialiser
  is \<^verbatim>\<open>sortingOrder[0].desc || true\<close>. With an empty \<open>sortingOrder\<close> the unguarded
  read of \<^verbatim>\<open>sortingOrder[0].desc\<close> fails with a TypeError, so a non-empty array is a
  precondition of the component.
\<close>

theorem initial_desc_always_true:
  "(sortingOrder props \<noteq> [] \<longrightarrow>
      (\<exists>st. initialState props = Inr st \<and> desc st = True
            \<and> columnSort st = Some (sort_id (hd (sortingOrder props)))))
   \<and> (sortingOrder props = [] \<longrightarrow> initialState props = Inl TypeError)"
  by (cases "sortingOrder props") (simp_all add: initialState_def)

text \<open>An instance whose first entry asks for ascending order.\<close>

theorem initial_desc_always_true_witness:
  "sort_desc (hd (sortingOrder sampleMobileProps)) = False
   \<and> (\<exists>st. initialState sampleMobileProps = Inr st \<and> desc st = True
          \<and> columnSort st = Some ''profit_amount'')"
  using initial_desc_always_true [of sampleMobileProps]
  by (simp add: sampleMobileProps_def)

text \<open>
  C10. The stored \<open>ignoreDataAfterHours\<close> never exceeds 720 (\<open>MAX_HOURS\<close> = 24 * 30): not
  initially, where it is 720, and not after any sequence of events of the component;
  the handler of the hours input stores the minimum of the parsed input and 720. The
  handler of the stack-size input stores the parsed input as it is, without a bound.
\<close>

theorem hours_never_exceed_max:
  "\<not> jsGreater
       (ignoreDataAfterHours (info (fst (undercutRun props evs (undercutInitial props, env)))))
       (JNum 720)
   \<and> ignoreDataAfterHours (info (undercutInitial props)) = JNum 720
   \<and> ignoreDataAfterHours (info (hoursOnChange v st)) = mathMin (parseInt v) (JNum 720)
   \<and> ignoreStackSize (info (stackSizeOnChange v st)) = parseInt v"
proof -
  have "hoursOk (fst (undercutInitial props, env))"
    by (simp add: hoursOk_def undercutInitial_def)
  then have "hoursOk (fst (undercutRun props evs (undercutInitial props, env)))"
    by (rule run_hoursOk)
  then show ?thesis
    by (simp add: hoursOk_def MAX_HOURS_def undercutInitial_def hoursOnChange_def
          stackSizeOnChange_def)
qed

text \<open>
  An instance: typing 1000 hours stores 720, typing a stack size of 100000 stores
  100000.
\<close>

theorem hours_never_exceed_max_witness:
  "ignoreDataAfterHours (info (hoursOnChange ''1000'' (undercutInitial sampleProps))) = JNum 720
   \<and> ignoreStackSize (info (stackSizeOnChange ''100000'' (undercutInitial sampleProps)))
       = JNum 100000
   \<and> \<not> jsGreater
         (ignoreDataAfterHours (info (fst (undercutRun sampleProps
            [HoursChange ''1000'', StackSizeChange ''100000'']
            (undercutInitial sampleProps, secureBrowser)))))
         (JNum 720)"
  using hours_never_exceed_max
          [of sampleProps "[HoursChange ''1000'', StackSizeChange ''100000'']" secureBrowser
              "''1000''" "undercutInitial sampleProps"]
        hours_never_exceed_max
          [of sampleProps "[]" secureBrowser "''100000''" "undercutInitial sampleProps"]
  by (simp add: parseInt_def isWhiteSpace_def isDigit_def digitValue_def)

section \<open>Further properties\<close>

text \<open>
  What the comparator of the mobile table computes in every case: it returns 0 as soon
  as one of the two values is falsy (absent, null, NaN, the number 0, the empty string,
  false) or is not of type number; for two numbers other than 0 it returns their
  difference, second minus first when descending and first minus second when
  ascending.
\<close>

theorem sortCompare_cases:
  "((jsNot (getProp a c) \<or> typeof (getProp a c) \<noteq> TNumber
      \<or> jsNot (getProp b c) \<or> typeof (getProp b c) \<noteq> TNumber)
     \<longrightarrow> sortCompare c d a b = JNum 0)
   \<and> (getProp a c = JNum x \<and> getProp b c = JNum y \<and> x \<noteq> 0 \<and> y \<noteq> 0
     \<longrightarrow> sortCompare c d a b = JNum (if d then y - x else x - y))"
  by (auto simp: sortCompare_def Let_def)

theorem sortCompare_cases_witness:
  "sortCompare ''profit_amount'' True potion elixir = JNum 4
   \<and> sortCompare ''profit_amount'' False potion elixir = JNum (- 4)
   \<and> sortCompare ''real_name'' True potion elixir = JNum 0
   \<and> sortCompare ''url'' True potion elixir = JNum 0"
  using sortCompare_cases [of potion "''profit_amount''" elixir True 5 9]
        sortCompare_cases [of potion "''profit_amount''" elixir False 5 9]
        sortCompare_cases [of potion "''real_name''" elixir True]
        sortCompare_cases [of potion "''url''" elixir True]
  by (simp add: getProp_def potion_def elixir_def)

end
